theory Spec2Isabelle
  imports Complex_Main "HOL-Library.Word"
begin

section \<open>The report action of sentinl (server/lib/actions/actions/report.js)\<close>

text \<open>
  A shallow embedding of \<^verbatim>\<open>report.js\<close>: the \<^verbatim>\<open>Authenticator\<close> and \<^verbatim>\<open>Reporter\<close> classes,
  the two packaging helpers and the exported \<^verbatim>\<open>doReport\<close>. JavaScript values that may
  be \<^verbatim>\<open>undefined\<close> are options, thrown values are the left injection of a sum, and
  every call to a collaborator outside the file (puppeteer, the mail client, the history
  store, the logger) is an event appended to a trace, with its outcome given by an
  environment.
\<close>

subsection \<open>Buffers and their base64 text\<close>

text \<open>
  A \<^verbatim>\<open>Buffer\<close> is a list of bytes. \<^verbatim>\<open>Buffer.toString('base64')\<close> belongs to Node, not
  to the repository; it is modelled as the base64 of RFC 4648 with the standard alphabet
  and \<^verbatim>\<open>=\<close> padding, together with the decoder that reads it back.
\<close>

type_synonym byte = "8 word"

definition b64chars :: string where
  "b64chars = ''ABCDEFGHIJKLMNOPQRSTUVWXYZabcdefghijklmnopqrstuvwxyz0123456789+/''"

definition enc :: "nat \<Rightarrow> char" where
  "enc n = b64chars ! n"

fun index_of :: "char \<Rightarrow> string \<Rightarrow> nat" where
  "index_of c [] = 0"
| "index_of c (d # ds) = (if c = d then 0 else Suc (index_of c ds))"

definition dec :: "char \<Rightarrow> nat" where
  "dec c = index_of c b64chars"

fun toBase64 :: "byte list \<Rightarrow> string" where
  "toBase64 [] = []"
| "toBase64 [a] =
     [enc (unat a div 4), enc (unat a mod 4 * 16), CHR ''='', CHR ''='']"
| "toBase64 [a, b] =
     [enc (unat a div 4), enc (unat a mod 4 * 16 + unat b div 16),
      enc (unat b mod 16 * 4), CHR ''='']"
| "toBase64 (a # b # c # rest) =
     [enc (unat a div 4), enc (unat a mod 4 * 16 + unat b div 16),
      enc (unat b mod 16 * 4 + unat c div 64), enc (unat c mod 64)] @ toBase64 rest"

fun fromBase64 :: "string \<Rightarrow> byte list" where
  "fromBase64 (c1 # c2 # c3 # c4 # rest) =
     (let b1 = of_nat (dec c1 * 4 + dec c2 div 16) :: byte;
          b2 = of_nat (dec c2 mod 16 * 16 + dec c3 div 4) :: byte;
          b3 = of_nat (dec c3 mod 4 * 64 + dec c4) :: byte
      in if c3 = CHR ''='' then [b1]
         else if c4 = CHR ''='' then [b1, b2]
         else b1 # b2 # b3 # fromBase64 rest)"
| "fromBase64 _ = []"

text \<open>
  The bytes of a string, as \<^verbatim>\<open>new Buffer(str)\<close> lays them out: UTF-8, where a character
  is a code point below 256, so one byte below 128 and two bytes from there on.
\<close>

definition utf8 :: "char \<Rightarrow> byte list" where
  "utf8 c =
     (if (of_char c :: nat) < 128 then [of_nat (of_char c)]
      else [of_nat (192 + of_char c div 64), of_nat (128 + of_char c mod 64)])"

definition bytes_of :: "string \<Rightarrow> byte list" where
  "bytes_of s = concat (map utf8 s)"

subsection \<open>Values that may be undefined\<close>

text \<open>
  \<^verbatim>\<open>undefined\<close> is \<open>None\<close>. A string is falsy when it is undefined or empty, a number
  when it is undefined or zero; \<^verbatim>\<open>a || b\<close> yields \<^verbatim>\<open>a\<close> when it is truthy and \<^verbatim>\<open>b\<close>
  otherwise. A template literal prints undefined as the word itself.
\<close>

fun truthy_str :: "string option \<Rightarrow> bool" where
  "truthy_str None = False"
| "truthy_str (Some s) = (s \<noteq> [])"

fun or_str :: "string option \<Rightarrow> string option \<Rightarrow> string option" where
  "or_str a b = (if truthy_str a then a else b)"

fun str_of :: "string option \<Rightarrow> string" where
  "str_of None = ''undefined''"
| "str_of (Some s) = s"

text \<open>A parameter declared \<^verbatim>\<open>type = 'png'\<close> takes the default when the argument is undefined.\<close>

fun default_png :: "string option \<Rightarrow> string" where
  "default_png None = ''png''"
| "default_png (Some t) = t"

subsection \<open>Packaging: createReportFileName and createReportAttachment\<close>

text \<open>
  \<^verbatim>\<open>createReportFileName(filename, type = 'png')\<close>. The results of \<^verbatim>\<open>uuid()\<close> and of
  \<^verbatim>\<open>moment().format('DD-MM-YYYY-h-m-s')\<close> come from libraries outside the repository and
  are the first two parameters.
\<close>

definition createReportFileName ::
  "string \<Rightarrow> string \<Rightarrow> string option \<Rightarrow> string option \<Rightarrow> string" where
  "createReportFileName uuid_v4 moment_now filename ty =
     (if \<not> truthy_str filename
      then ''report-'' @ uuid_v4 @ ''-'' @ moment_now @ ''.'' @ default_png ty
      else str_of filename @ ''.'' @ default_png ty)"

text \<open>
  One part of the attachment array handed to the mail client. The first part only has
  \<^verbatim>\<open>data\<close> and \<^verbatim>\<open>alternative\<close>; the second has \<^verbatim>\<open>data\<close>, \<^verbatim>\<open>type\<close>, \<^verbatim>\<open>name\<close>, \<^verbatim>\<open>encoded\<close>
  and \<^verbatim>\<open>headers\<close>. A property the object literal does not have is \<open>None\<close> (or no header).
\<close>

record attachment_part =
  part_data :: string
  part_alternative :: "bool option"
  part_type :: "string option"
  part_name :: "string option"
  part_encoded :: "bool option"
  part_headers :: "(string \<times> string) list"

definition image_html :: string where
  "image_html = ''<html><img src='cid:my-report' width='100%'></html>''"

definition pdf_html :: string where
  "pdf_html = ''<html><p>Find PDF report in the attachment.</p></html>''"

definition createReportAttachment ::
  "string \<Rightarrow> byte list \<Rightarrow> string option \<Rightarrow> attachment_part list" where
  "createReportAttachment filename file ty =
     (let filetype = (if default_png ty = ''pdf'' then ''application/pdf''
                      else ''image/'' @ default_png ty);
          data = (if default_png ty = ''pdf'' then pdf_html else image_html)
      in [\<lparr>part_data = data, part_alternative = Some True, part_type = None,
            part_name = None, part_encoded = None, part_headers = []\<rparr>,
          \<lparr>part_data = toBase64 file, part_alternative = None, part_type = Some filetype,
            part_name = Some filename, part_encoded = Some True,
            part_headers = [(''Content-ID'', ''<my-report>'')]\<rparr>])"

text \<open>Whether a text occurs inside another, for statements about what a string mentions.\<close>

fun starts_with :: "string \<Rightarrow> string \<Rightarrow> bool" where
  "starts_with [] s = True"
| "starts_with (p # ps) [] = False"
| "starts_with (p # ps) (c # cs) = (p = c \<and> starts_with ps cs)"

fun mentions :: "string \<Rightarrow> string \<Rightarrow> bool" where
  "mentions p [] = starts_with p []"
| "mentions p (c # cs) = (starts_with p (c # cs) \<or> mentions p cs)"

subsection \<open>Thrown values\<close>

text \<open>
  What a \<^verbatim>\<open>throw\<close> carries: an \<^verbatim>\<open>Error\<close> or \<^verbatim>\<open>TypeError\<close> object with its message, or
  a value that is not an object (a string). \<open>err_text\<close> is what a template literal
  prints for it (the name alone when the message is empty); \<open>isObject\<close> is lodash's test.
\<close>

datatype error = Error string | TypeError string | Thrown string

fun err_text :: "error \<Rightarrow> string" where
  "err_text (Error m) = (if m = [] then ''Error'' else ''Error: '' @ m)"
| "err_text (TypeError m) = (if m = [] then ''TypeError'' else ''TypeError: '' @ m)"
| "err_text (Thrown s) = s"

fun isObject :: "error \<Rightarrow> bool" where
  "isObject (Thrown s) = False"
| "isObject e = True"

fun or_num :: "rat option \<Rightarrow> rat \<Rightarrow> rat" where
  "or_num None t = t"
| "or_num (Some d) t = (if d = 0 then t else d)"

text \<open>\<^verbatim>\<open>str.split('x')\<close> and reading an array at an index (undefined beyond its end).\<close>

fun split_on :: "char \<Rightarrow> string \<Rightarrow> string list" where
  "split_on d [] = [[]]"
| "split_on d (c # cs) =
     (if c = d then [] # split_on d cs
      else (case split_on d cs of [] \<Rightarrow> [[c]] | p # ps \<Rightarrow> (c # p) # ps))"

fun at_index :: "'a list \<Rightarrow> nat \<Rightarrow> 'a option" where
  "at_index [] n = None"
| "at_index (x # xs) 0 = Some x"
| "at_index (x # xs) (Suc n) = at_index xs n"

subsection \<open>The configuration, the action and the task\<close>

text \<open>
  The objects \<^verbatim>\<open>doReport\<close> reads: the configuration returned by \<^verbatim>\<open>getConfiguration\<close>
  (\<^verbatim>\<open>app_name\<close> and \<^verbatim>\<open>settings.report\<close>), the watcher's action and the task. Widths and
  heights are kept as the text the overlay stores (a number of the base configuration is
  its decimal text); timeouts are exact rationals, so \<^verbatim>\<open>timeout / 50\<close> is the exact
  quotient where JavaScript rounds to a double. An action's \<^verbatim>\<open>url\<close>, \<^verbatim>\<open>res\<close> and \<^verbatim>\<open>params\<close>
  may be missing.
\<close>

record custom_cfg =
  username_input_selector :: "string option"
  password_input_selector :: "string option"
  login_btn_selector :: "string option"

record mode_cfg =
  searchguard :: bool
  xpack :: bool
  custom :: bool
  basic :: bool

record authentication_cfg =
  enabled :: bool
  mode :: mode_cfg
  username :: "string option"
  password :: "string option"
  auth_custom :: custom_cfg

record screenshot_cfg =
  width :: "string option"
  height :: "string option"

record pdf_cfg =
  format :: "string option"
  landscape :: "bool option"

record file_cfg =
  file_screenshot :: screenshot_cfg
  file_pdf :: pdf_cfg

record report_cfg =
  active :: bool
  timeout :: rat
  executable_path :: "string option"
  authentication :: authentication_cfg
  cfg_file :: file_cfg

record root_cfg =
  app_name :: string
  settings_report :: report_cfg

record params_cfg =
  params_username :: "string option"
  params_password :: "string option"
  delay :: "rat option"
  params_username_input_selector :: "string option"
  params_password_input_selector :: "string option"
  params_login_btn_selector :: "string option"

record snapshot_cfg =
  url :: "string option"
  snapshot_name :: "string option"
  snapshot_type :: "string option"
  res :: "string option"
  params :: "params_cfg option"

record action =
  subject :: "string option"
  body :: "string option"
  priority :: "string option"
  action_from :: "string option"
  action_to :: "string option"
  stateless :: bool
  snapshot :: snapshot_cfg

record task =
  task_id :: "string option"
  source_title :: "string option"

type_synonym payload = string

subsection \<open>Collaborators: events, the environment and the world\<close>

text \<open>The argument of \<^verbatim>\<open>email.send\<close> and the argument of \<^verbatim>\<open>logHistory\<close> (without the server).\<close>

record mail =
  mail_text :: string
  mail_from :: "string option"
  mail_to :: "string option"
  mail_subject :: string
  mail_attachment :: "attachment_part list"

record history_doc =
  doc_title :: "string option"
  doc_actionType :: string
  doc_level :: "string option"
  doc_payload :: bool
  doc_report :: "bool option"
  doc_message :: string
  doc_object :: "attachment_part list option"

text \<open>
  Every call that leaves the file, in the order made: puppeteer's launch, newPage,
  setExtraHTTPHeaders, goto, type, click, setViewport, screenshot, pdf and close;
  bluebird's delay; the mail client's send; logHistory; and the logger's three levels.
  \<open>SetViewport\<close> records the operands of the unary plus.
\<close>

datatype event =
    Launch "string option"
  | NewPage
  | SetExtraHTTPHeaders "(string \<times> string) list"
  | Goto "string option"
  | TypeText string "string option" rat
  | Click string
  | Delay rat
  | SetViewport "string option" "string option"
  | Screenshot string
  | Pdf "string option" "bool option"
  | Close
  | Send mail
  | LogHistory history_doc
  | LogInfo string
  | LogDebug string
  | LogError error

text \<open>
  The environment decides what the collaborators do: whether a call fails, given all the
  calls made before it, the bytes a capture returns, what \<^verbatim>\<open>logHistory\<close> resolves with,
  and the results of \<^verbatim>\<open>mustache.render\<close>, \<^verbatim>\<open>JSON.stringify\<close>, \<^verbatim>\<open>uuid()\<close> and
  \<^verbatim>\<open>moment().format('DD-MM-YYYY-h-m-s')\<close>. The logger does not throw.
\<close>

record env =
  fails :: "event list \<Rightarrow> event \<Rightarrow> error option"
  captured :: "event list \<Rightarrow> byte list"
  history_result :: "event list \<Rightarrow> string"
  render :: "string \<Rightarrow> payload \<Rightarrow> error + string"
  json_stringify :: "error \<Rightarrow> string"
  uuid_v4 :: string
  moment_now :: string

text \<open>
  The world: the store of configuration objects, by reference, and the trace of calls.
  A computation takes the world and returns a thrown value or a result, with the world
  after it; an \<^verbatim>\<open>await\<close> of a rejected promise is a throw.
\<close>

record world =
  heap :: "nat \<Rightarrow> root_cfg"
  trace :: "event list"

type_synonym 'a io = "world \<Rightarrow> (error + 'a) \<times> world"

definition return :: "'a \<Rightarrow> 'a io" where
  "return x w = (Inr x, w)"

definition throw :: "error \<Rightarrow> 'a io" where
  "throw e w = (Inl e, w)"

definition bind :: "'a io \<Rightarrow> ('a \<Rightarrow> 'b io) \<Rightarrow> 'b io" where
  "bind m f w = (case m w of (Inl e, w') \<Rightarrow> (Inl e, w') | (Inr x, w') \<Rightarrow> f x w')"

definition try_catch :: "'a io \<Rightarrow> (error \<Rightarrow> 'a io) \<Rightarrow> 'a io" where
  "try_catch m h w = (case m w of (Inl e, w') \<Rightarrow> h e w' | (Inr x, w') \<Rightarrow> (Inr x, w'))"

fun steps :: "unit io list \<Rightarrow> unit io" where
  "steps [] = return ()"
| "steps (m # ms) = bind m (\<lambda>_. steps ms)"

definition reading :: "(world \<Rightarrow> 'a io) \<Rightarrow> 'a io" where
  "reading f w = f w w"

definition lift :: "error + 'a \<Rightarrow> 'a io" where
  "lift r w = (r, w)"

definition perform :: "env \<Rightarrow> event \<Rightarrow> (event list \<Rightarrow> 'a) \<Rightarrow> 'a io" where
  "perform E e result w =
     (case fails E (trace w) e of
        Some err \<Rightarrow> (Inl err, w\<lparr>trace := trace w @ [e]\<rparr>)
      | None \<Rightarrow> (Inr (result (trace w)), w\<lparr>trace := trace w @ [e]\<rparr>))"

definition call :: "env \<Rightarrow> event \<Rightarrow> unit io" where
  "call E e = perform E e (\<lambda>_. ())"

text \<open>
  Modelled from the spec: the logger (\<^verbatim>\<open>../../log\<close>, not among the sources). Failures
  are "logged internally": \<^verbatim>\<open>log.info\<close>, \<^verbatim>\<open>log.debug\<close> and \<^verbatim>\<open>log.error\<close> record their
  argument and return.
\<close>

definition logged :: "event \<Rightarrow> unit io" where
  "logged e w = (Inr (), w\<lparr>trace := trace w @ [e]\<rparr>)"

definition config_at :: "world \<Rightarrow> nat \<Rightarrow> report_cfg" where
  "config_at w a = settings_report (heap w a)"

definition modify :: "nat \<Rightarrow> (report_cfg \<Rightarrow> report_cfg) \<Rightarrow> unit io" where
  "modify a f w =
     (Inr (), w\<lparr>heap := (heap w)(a := (heap w a)\<lparr>settings_report := f (config_at w a)\<rparr>)\<rparr>)"

subsection \<open>Authenticator\<close>

text \<open>
  The three static methods. Each wraps whatever its steps throw in a new \<^verbatim>\<open>Error\<close>.
  The page argument is the one page of the session and is not passed around. Every call
  in the file passes the application name and the timeout, so the defaults of these two
  parameters are never taken.
\<close>

definition Authenticator_kibana ::
  "env \<Rightarrow> string option \<Rightarrow> string option \<Rightarrow> string \<Rightarrow> rat \<Rightarrow> unit io" where
  "Authenticator_kibana E user pass appName tmo =
     try_catch
       (steps [call E (TypeText ''#username'' user (tmo / 50)),
               call E (TypeText ''#password'' pass (tmo / 50)),
               (if appName = ''xpack'' then call E (Click ''.kuiButton'')
                else call E (Click ''.btn-login'')),
               call E (Delay tmo),
               call E (Click ''.global-nav-link--close''),
               call E (Delay (tmo / 5))])
       (\<lambda>err. throw (Error (''fail to authenticate via Search Guard, user: '' @ str_of user
                            @ '', '' @ err_text err)))"

definition Authenticator_custom ::
  "env \<Rightarrow> string option \<Rightarrow> string option \<Rightarrow> string \<Rightarrow> string \<Rightarrow> string \<Rightarrow> rat \<Rightarrow> unit io"
  where
  "Authenticator_custom E user pass userSelector passSelector loginBtnSelector tmo =
     try_catch
       (steps [call E (TypeText userSelector user (tmo / 50)),
               call E (TypeText passSelector pass (tmo / 50)),
               call E (Click loginBtnSelector),
               call E (Delay tmo)])
       (\<lambda>err. throw (Error (''fail to authenticate via custom auth, user: '' @ str_of user
                            @ '', '' @ err_text err)))"

text \<open>Called with three arguments only, so the encoding is the default, base64.\<close>

definition Authenticator_basic :: "env \<Rightarrow> string option \<Rightarrow> string option \<Rightarrow> unit io" where
  "Authenticator_basic E user pass =
     try_catch
       (call E (SetExtraHTTPHeaders
          [(''Authorization'',
            ''Basic '' @ toBase64 (bytes_of (str_of user @ '':'' @ str_of pass)))]))
       (\<lambda>err. throw (Error (''fail to set basic auth headers, user: '' @ str_of user
                            @ '', '' @ err_text err)))"

subsection \<open>Reporter\<close>

text \<open>
  The constructor stores the reference to the report configuration; \<^verbatim>\<open>openPage\<close> assigns
  \<^verbatim>\<open>url\<close>, \<^verbatim>\<open>browser\<close> and \<^verbatim>\<open>page\<close>. No statement of the file assigns
  \<^verbatim>\<open>this.authentication\<close>, so reading that property yields undefined.
\<close>

record reporter =
  r_config :: nat
  r_url :: "string option"
  r_browser :: bool
  r_page :: bool

definition Reporter_new :: "nat \<Rightarrow> reporter" where
  "Reporter_new config = \<lparr>r_config = config, r_url = None, r_browser = False, r_page = False\<rparr>"

definition this_authentication :: "reporter \<Rightarrow> authentication_cfg option" where
  "this_authentication this = None"

definition Reporter_authenticate ::
  "env \<Rightarrow> mode_cfg \<Rightarrow> string option \<Rightarrow> string option \<Rightarrow> rat \<Rightarrow> unit io" where
  "Reporter_authenticate E md user pass tmo =
     steps [(if searchguard md then Authenticator_kibana E user pass ''searchguard'' tmo
             else return ()),
            (if xpack md then Authenticator_kibana E user pass ''xpack'' tmo else return ()),
            (if custom md
             then Authenticator_custom E user pass ''#user'' ''#pass'' ''.btn-lg'' tmo
             else return ())]"

definition Reporter_openPage ::
  "env \<Rightarrow> reporter \<Rightarrow> string option \<Rightarrow> string option \<Rightarrow> reporter io" where
  "Reporter_openPage E this0 u executablePath =
     (let this1 = this0\<lparr>r_url := u\<rparr> in
      bind (try_catch (steps [call E (Launch executablePath), call E NewPage])
              (\<lambda>err. throw (Error (''fail to open headless chrome, '' @ err_text err))))
        (\<lambda>_. let this = this1\<lparr>r_browser := True, r_page := True\<rparr> in
          bind (reading (\<lambda>w.
                  if enabled (authentication (config_at w (r_config this)))
                     \<and> basic (mode (authentication (config_at w (r_config this))))
                  then (case this_authentication this of
                          None \<Rightarrow>
                            throw (TypeError ''Cannot read property 'username' of undefined'')
                        | Some auth \<Rightarrow> Authenticator_basic E (username auth) (password auth))
                  else return ()))
            (\<lambda>_. bind (try_catch (call E (Goto u))
                          (\<lambda>err. throw (Error (''fail to go to url: '' @ str_of u))))
              (\<lambda>_. bind (reading (\<lambda>w.
                      let cfg = config_at w (r_config this) in
                      if enabled (authentication cfg)
                      then Reporter_authenticate E (mode (authentication cfg))
                             (username (authentication cfg)) (password (authentication cfg))
                             (timeout cfg)
                      else call E (Delay (timeout cfg))))
                (\<lambda>_. return this)))))"

definition Reporter_screenshot :: "env \<Rightarrow> reporter \<Rightarrow> string option \<Rightarrow> byte list io" where
  "Reporter_screenshot E this ty =
     reading (\<lambda>w.
       let sc = file_screenshot (cfg_file (config_at w (r_config this))) in
       try_catch
         (if r_page this
          then bind (call E (SetViewport (width sc) (height sc)))
                 (\<lambda>_. perform E (Screenshot (default_png ty)) (captured E))
          else throw (TypeError ''Cannot read property 'setViewport' of undefined''))
         (\<lambda>err. throw (Error (''fail to do a screenshot, url: '' @ str_of (r_url this)
                              @ '', '' @ err_text err))))"

definition Reporter_pdf :: "env \<Rightarrow> reporter \<Rightarrow> byte list io" where
  "Reporter_pdf E this =
     reading (\<lambda>w.
       let p = file_pdf (cfg_file (config_at w (r_config this))) in
       try_catch
         (if r_page this
          then perform E (Pdf (format p) (landscape p)) (captured E)
          else throw (TypeError ''Cannot read property 'pdf' of undefined''))
         (\<lambda>err. throw (Error (''fail to do a PDF doc, url: '' @ str_of (r_url this)
                              @ '', '' @ err_text err))))"

definition Reporter_end :: "env \<Rightarrow> reporter \<Rightarrow> unit io" where
  "Reporter_end E this =
     try_catch
       (if r_browser this then call E Close
        else throw (TypeError ''Cannot read property 'close' of undefined''))
       (\<lambda>err. throw (Error (''fail to close headless chrome, '' @ err_text err)))"

subsection \<open>doReport\<close>

text \<open>
  The overlay of the action's parameters onto the report configuration (the assignments
  after the file name is computed). Each assignment writes into the object the reference
  \<open>a\<close> leads to. Reading \<^verbatim>\<open>params.username\<close> throws, before anything is written, when the
  action has no \<^verbatim>\<open>params\<close>; \<^verbatim>\<open>res.split\<close> throws when it has no \<^verbatim>\<open>res\<close>.
\<close>

definition overlay :: "nat \<Rightarrow> action \<Rightarrow> unit io" where
  "overlay a act =
     (case params (snapshot act) of
        None \<Rightarrow> throw (TypeError ''Cannot read property 'username' of undefined'')
      | Some p \<Rightarrow>
      steps
        [modify a (\<lambda>c. c\<lparr>authentication := (authentication c)\<lparr>username := params_username p\<rparr>\<rparr>),
         modify a (\<lambda>c. c\<lparr>authentication := (authentication c)\<lparr>password := params_password p\<rparr>\<rparr>),
         (case res (snapshot act) of
            None \<Rightarrow> throw (TypeError ''Cannot read property 'split' of undefined'')
          | Some r \<Rightarrow>
              modify a (\<lambda>c. c\<lparr>cfg_file := (cfg_file c)\<lparr>file_screenshot :=
                (file_screenshot (cfg_file c))\<lparr>width := at_index (split_on CHR ''x'' r) 0\<rparr>\<rparr>\<rparr>)),
         (case res (snapshot act) of
            None \<Rightarrow> throw (TypeError ''Cannot read property 'split' of undefined'')
          | Some r \<Rightarrow>
              modify a (\<lambda>c. c\<lparr>cfg_file := (cfg_file c)\<lparr>file_screenshot :=
                (file_screenshot (cfg_file c))\<lparr>height := at_index (split_on CHR ''x'' r) 1\<rparr>\<rparr>\<rparr>)),
         modify a (\<lambda>c. c\<lparr>timeout := or_num (delay p) (timeout c)\<rparr>),
         reading (\<lambda>w.
           if custom (mode (authentication (config_at w a)))
           then modify a (\<lambda>c. c\<lparr>authentication := (authentication c)\<lparr>auth_custom :=
                  \<lparr>username_input_selector =
                     or_str (params_username_input_selector p)
                       (username_input_selector (auth_custom (authentication c))),
                   password_input_selector =
                     or_str (params_password_input_selector p)
                       (password_input_selector (auth_custom (authentication c))),
                   login_btn_selector =
                     or_str (params_login_btn_selector p)
                       (login_btn_selector (auth_custom (authentication c)))\<rparr>\<rparr>\<rparr>)
           else return ())])"

text \<open>
  What the statements before the \<^verbatim>\<open>try\<close> block compute: the rendered subject and body,
  the priority and the file name.
\<close>

record prepared =
  p_subject :: string
  p_text :: string
  p_priority :: string
  p_filename :: string

text \<open>The defaults for a missing or empty subject, body and priority.\<close>

definition formatterSubject :: "action \<Rightarrow> string \<Rightarrow> string" where
  "formatterSubject act actionName =
     (if truthy_str (subject act) then str_of (subject act) else ''SENTINL: '' @ actionName)"

definition formatterText :: "action \<Rightarrow> string" where
  "formatterText act =
     (if truthy_str (body act) then str_of (body act)
      else ''Series Report {{payload._id}}: {{payload.hits.total}}'')"

definition priority_of :: "action \<Rightarrow> string" where
  "priority_of act = (if truthy_str (priority act) then str_of (priority act) else ''INFO'')"

definition prepare :: "env \<Rightarrow> nat \<Rightarrow> action \<Rightarrow> string \<Rightarrow> payload \<Rightarrow> prepared io" where
  "prepare E a act actionName pl =
     reading (\<lambda>w.
       if \<not> active (config_at w a)
       then throw (Error ''Reports Disabled: Action requires Email Settings!'')
       else
         bind (case url (snapshot act) of
                 None \<Rightarrow> throw (TypeError ''Cannot read property 'length' of undefined'')
               | Some u \<Rightarrow>
                   if u = [] then logged (LogInfo ''Report Disabled: No URL Settings!'')
                   else return ()) (\<lambda>_.
         bind (lift (render E (formatterSubject act actionName) pl)) (\<lambda>subj.
         bind (lift (render E (formatterText act) pl)) (\<lambda>txt.
         bind (logged (LogDebug (''subject: '' @ subj @ '', body: '' @ txt))) (\<lambda>_.
         let filename =
               createReportFileName (uuid_v4 E) (moment_now E)
                 (snapshot_name (snapshot act)) (snapshot_type (snapshot act))
         in
         bind (overlay a act) (\<lambda>_.
         return \<lparr>p_subject = subj, p_text = txt, p_priority = priority_of act,
                  p_filename = filename\<rparr>))))))"

text \<open>The two documents handed to \<^verbatim>\<open>logHistory\<close>: the full one, and the reduced one of the catch.\<close>

definition primary_doc ::
  "task \<Rightarrow> string \<Rightarrow> prepared \<Rightarrow> attachment_part list \<Rightarrow> history_doc" where
  "primary_doc tsk actionName p attachment =
     \<lparr>doc_title = source_title tsk, doc_actionType = actionName,
      doc_level = Some (p_priority p), doc_payload = True, doc_report = Some True,
      doc_message = p_text p, doc_object = Some attachment\<rparr>"

definition fallback_doc :: "env \<Rightarrow> task \<Rightarrow> string \<Rightarrow> error \<Rightarrow> history_doc" where
  "fallback_doc E tsk actionName err =
     \<lparr>doc_title = source_title tsk, doc_actionType = actionName,
      doc_level = None, doc_payload = False, doc_report = None,
      doc_message = (if isObject err then json_stringify E err else err_text err),
      doc_object = None\<rparr>"

datatype outcome = Saved string | Message string

text \<open>The first statements of the \<^verbatim>\<open>try\<close> block: the session is opened and the page captured.\<close>

definition capture_stage :: "env \<Rightarrow> nat \<Rightarrow> action \<Rightarrow> (reporter \<times> byte list) io" where
  "capture_stage E a act =
     bind (reading (\<lambda>w.
             Reporter_openPage E (Reporter_new a) (url (snapshot act))
               (executable_path (config_at w a))))
       (\<lambda>report.
         bind (if snapshot_type (snapshot act) \<noteq> Some ''pdf''
               then Reporter_screenshot E report (snapshot_type (snapshot act))
               else Reporter_pdf E report)
           (\<lambda>file. return (report, file)))"

text \<open>The attachment is built and the mail sent.\<close>

definition mail_stage ::
  "env \<Rightarrow> task \<Rightarrow> action \<Rightarrow> prepared \<Rightarrow> byte list \<Rightarrow> attachment_part list io" where
  "mail_stage E tsk act p file =
     bind (logged (LogDebug (''sending email, watcher '' @ str_of (task_id tsk) @ '', text ''
                             @ p_text p)))
       (\<lambda>_. let attachment =
                   createReportAttachment (p_filename p) file (snapshot_type (snapshot act))
             in bind (call E (Send \<lparr>mail_text = p_text p, mail_from = action_from act,
                                     mail_to = action_to act, mail_subject = p_subject p,
                                     mail_attachment = attachment\<rparr>))
                  (\<lambda>_. return attachment))"

text \<open>The history is written unless the action is stateless.\<close>

definition history_stage ::
  "env \<Rightarrow> task \<Rightarrow> action \<Rightarrow> string \<Rightarrow> prepared \<Rightarrow> attachment_part list \<Rightarrow> outcome option io"
  where
  "history_stage E tsk act actionName p attachment =
     (if \<not> stateless act
      then try_catch
             (bind (perform E (LogHistory (primary_doc tsk actionName p attachment))
                      (history_result E))
                (\<lambda>r. return (Some (Saved r))))
             (\<lambda>err.
               if \<not> stateless act
               then bind (perform E (LogHistory (fallback_doc E tsk actionName err))
                            (history_result E))
                      (\<lambda>r. return (Some (Saved r)))
               else throw (Error (''fail to save report in Elasticsearch, '' @ err_text err)))
      else bind (logged (LogDebug ''stateless report does not save data to Elasticsearch''))
             (\<lambda>_. return (Some (Message ''stateless report does not save data to Elasticsearch''))))"

text \<open>The body of the \<^verbatim>\<open>try\<close> block.\<close>

definition try_block ::
  "env \<Rightarrow> nat \<Rightarrow> task \<Rightarrow> action \<Rightarrow> string \<Rightarrow> prepared \<Rightarrow> outcome option io" where
  "try_block E a tsk act actionName p =
     bind (capture_stage E a act) (\<lambda>(report, file).
     bind (Reporter_end E report) (\<lambda>_.
     bind (mail_stage E tsk act p file) (\<lambda>attachment.
     history_stage E tsk act actionName p attachment)))"

text \<open>
  \<^verbatim>\<open>doReport(server, email, task, action, actionName, payload)\<close>. \<open>a\<close> is the reference
  \<^verbatim>\<open>getConfiguration(server)\<close> returned; the server and the mail client are otherwise only
  passed on, and constructing the logger from \<^verbatim>\<open>app_name\<close> does nothing that is observed.
  The result \<open>None\<close> is the undefined the function resolves with after its catch; \<open>Inl\<close> is
  a rejected promise.
\<close>

definition doReport ::
  "env \<Rightarrow> nat \<Rightarrow> task \<Rightarrow> action \<Rightarrow> string \<Rightarrow> payload \<Rightarrow> outcome option io" where
  "doReport E a tsk act actionName pl =
     bind (prepare E a act actionName pl) (\<lambda>p.
     try_catch (try_block E a tsk act actionName p)
       (\<lambda>err. bind (logged (LogError err)) (\<lambda>_. return None)))"

subsection \<open>Reading a run\<close>

text \<open>The calls a run added to the trace, and the projections the statements count.\<close>

definition new_events :: "world \<Rightarrow> world \<Rightarrow> event list" where
  "new_events w w' = drop (length (trace w)) (trace w')"

fun is_close :: "event \<Rightarrow> bool" where
  "is_close Close = True"
| "is_close e = False"

fun is_send :: "event \<Rightarrow> bool" where
  "is_send (Send m) = True"
| "is_send e = False"

fun is_history :: "event \<Rightarrow> bool" where
  "is_history (LogHistory d) = True"
| "is_history e = False"

fun is_form :: "event \<Rightarrow> bool" where
  "is_form (TypeText s t d) = True"
| "is_form (Click s) = True"
| "is_form e = False"

text \<open>
  Two properties of a computation, for the frame of each stage: every call it adds to the
  trace satisfies \<open>P\<close>, and it leaves the store as it found it.
\<close>

definition emits :: "(event \<Rightarrow> bool) \<Rightarrow> 'a io \<Rightarrow> bool" where
  "emits P m = (\<forall>w. \<exists>es. trace (snd (m w)) = trace w @ es \<and> list_all P es)"

definition keeps_heap :: "'a io \<Rightarrow> bool" where
  "keeps_heap m = (\<forall>w. heap (snd (m w)) = heap w)"

text \<open>The calls on the page before it is closed, and the calls of the logger.\<close>

fun is_page :: "event \<Rightarrow> bool" where
  "is_page Close = False"
| "is_page (Send m) = False"
| "is_page (LogHistory d) = False"
| "is_page (LogInfo s) = False"
| "is_page (LogDebug s) = False"
| "is_page (LogError e) = False"
| "is_page e = True"

fun is_log :: "event \<Rightarrow> bool" where
  "is_log (LogInfo s) = True"
| "is_log (LogDebug s) = True"
| "is_log (LogError e) = True"
| "is_log e = False"

text \<open>The run up to the capture, and up to the mail, without the catch around them.\<close>

definition run_to_capture ::
  "env \<Rightarrow> nat \<Rightarrow> action \<Rightarrow> string \<Rightarrow> payload \<Rightarrow> (prepared \<times> reporter \<times> byte list) io" where
  "run_to_capture E a act actionName pl =
     bind (prepare E a act actionName pl) (\<lambda>p.
     bind (capture_stage E a act) (\<lambda>(report, file). return (p, report, file)))"

definition run_to_mail ::
  "env \<Rightarrow> nat \<Rightarrow> task \<Rightarrow> action \<Rightarrow> string \<Rightarrow> payload \<Rightarrow> (prepared \<times> attachment_part list) io"
  where
  "run_to_mail E a tsk act actionName pl =
     bind (run_to_capture E a act actionName pl) (\<lambda>(p, report, file).
     bind (Reporter_end E report) (\<lambda>_.
     bind (mail_stage E tsk act p file) (\<lambda>attachment. return (p, attachment))))"

subsection \<open>A sample run\<close>

text \<open>
  A configuration with authentication off, an action asking for a PNG of
  \<^verbatim>\<open>http://x\<close> at 800x600, and an environment in which every collaborator succeeds and
  templates without tags render to themselves. The variations below change one thing each.
\<close>

definition base_cfg :: root_cfg where
  "base_cfg =
     \<lparr>app_name = ''sentinl'',
      settings_report =
        \<lparr>active = True, timeout = 5000, executable_path = None,
         authentication =
           \<lparr>enabled = False,
            mode = \<lparr>searchguard = False, xpack = False, custom = False, basic = False\<rparr>,
            username = None, password = None,
            auth_custom =
              \<lparr>username_input_selector = Some ''#login-user'',
               password_input_selector = Some ''#login-pass'',
               login_btn_selector = Some ''#login-go''\<rparr>\<rparr>,
         cfg_file =
           \<lparr>file_screenshot = \<lparr>width = Some ''1280'', height = Some ''900''\<rparr>,
            file_pdf = \<lparr>format = Some ''A4'', landscape = Some True\<rparr>\<rparr>\<rparr>\<rparr>"

definition with_mode :: "mode_cfg \<Rightarrow> root_cfg \<Rightarrow> root_cfg" where
  "with_mode md c =
     c\<lparr>settings_report := (settings_report c)\<lparr>authentication :=
        (authentication (settings_report c))\<lparr>enabled := True, mode := md\<rparr>\<rparr>\<rparr>"

definition with_params :: "params_cfg option \<Rightarrow> action \<Rightarrow> action" where
  "with_params ps act = act\<lparr>snapshot := (snapshot act)\<lparr>params := ps\<rparr>\<rparr>"

definition sample_params :: params_cfg where
  "sample_params =
     \<lparr>params_username = Some ''admin'', params_password = Some ''secret'',
      delay = None, params_username_input_selector = None,
      params_password_input_selector = None,
      params_login_btn_selector = None\<rparr>"

definition sample_action :: action where
  "sample_action =
     \<lparr>subject = Some ''Daily'', body = Some ''report'', priority = None,
      action_from = Some ''a@x'', action_to = Some ''b@x'', stateless = False,
      snapshot =
        \<lparr>url = Some ''http://x'', snapshot_name = Some ''nightly'',
         snapshot_type = Some ''png'', res = Some ''800x600'',
         params = Some sample_params\<rparr>\<rparr>"

definition sample_task :: task where
  "sample_task = \<lparr>task_id = Some ''w1'', source_title = Some ''watcher one''\<rparr>"

definition quiet_env :: env where
  "quiet_env =
     \<lparr>fails = (\<lambda>tr e. None), captured = (\<lambda>tr. [0x89, 0x50, 0x4E, 0x47]),
      history_result = (\<lambda>tr. ''h1''), render = (\<lambda>t p. Inr t),
      json_stringify = (\<lambda>e. ''{}''),
      uuid_v4 = ''110ec58a-a0f2-4ac4-8393-c866d813b8d1'',
      moment_now = ''03-11-2026-10-17-5''\<rparr>"

definition world0 :: "root_cfg \<Rightarrow> world" where
  "world0 c = \<lparr>heap = (\<lambda>a. c), trace = []\<rparr>"

text \<open>Variations: an environment in which the calls selected by \<open>P\<close> fail, and others.\<close>

definition failing_on :: "(event \<Rightarrow> bool) \<Rightarrow> env" where
  "failing_on P = quiet_env\<lparr>fails := (\<lambda>tr e. if P e then Some (Error ''gone'') else None)\<rparr>"

fun is_newpage :: "event \<Rightarrow> bool" where
  "is_newpage NewPage = True"
| "is_newpage e = False"


definition custom_cfg0 :: root_cfg where
  "custom_cfg0 =
     with_mode \<lparr>searchguard = False, xpack = False, custom = True, basic = False\<rparr> base_cfg"

definition basic_cfg0 :: root_cfg where
  "basic_cfg0 =
     with_mode \<lparr>searchguard = False, xpack = False, custom = False, basic = True\<rparr> base_cfg"

definition sample_prepared :: prepared where
  "sample_prepared =
     \<lparr>p_subject = ''Daily'', p_text = ''report'', p_priority = ''INFO'',
      p_filename = ''nightly.png''\<rparr>"

definition sample_reporter :: reporter where
  "sample_reporter =
     \<lparr>r_config = 0, r_url = Some ''http://x'', r_browser = True, r_page = True\<rparr>"

definition zero_delay_action :: action where
  "zero_delay_action = with_params (Some (sample_params\<lparr>delay := Some 0\<rparr>)) sample_action"

definition button_action :: action where
  "button_action =
     with_params (Some (sample_params\<lparr>params_login_btn_selector := Some ''#submit''\<rparr>))
       sample_action"


text \<open>The catch of \<^verbatim>\<open>doReport\<close>: the error is logged and the function falls off its end.\<close>

abbreviation (input) handler :: "error \<Rightarrow> outcome option io" where
  "handler \<equiv> (\<lambda>err. bind (logged (LogError err)) (\<lambda>_. return None))"

section \<open>Properties\<close>

subsection \<open>The base64 text reads back as the bytes\<close>

lemma index_of_nth: "distinct xs \<Longrightarrow> n < length xs \<Longrightarrow> index_of (xs ! n) xs = n"
proof (induction xs arbitrary: n)
  case Nil
  then show ?case by simp
next
  case (Cons x xs)
  then show ?case by (cases n) auto
qed

lemma b64chars_distinct: "distinct b64chars"
  unfolding b64chars_def by simp

lemma b64chars_length: "length b64chars = 64"
  unfolding b64chars_def by simp

lemma dec_enc: "n < 64 \<Longrightarrow> dec (enc n) = n"
  unfolding dec_def enc_def using index_of_nth[OF b64chars_distinct] b64chars_length by simp

lemma enc_not_pad: "n < 64 \<Longrightarrow> enc n \<noteq> CHR ''=''"
proof -
  assume "n < 64"
  then have "enc n \<in> set b64chars"
    unfolding enc_def using b64chars_length by simp
  moreover have "CHR ''='' \<notin> set b64chars"
    unfolding b64chars_def by simp
  ultimately show ?thesis by metis
qed

lemma byte_lt: "unat (a :: byte) < 256"
  using unsigned_less[of a, where ?'a = nat] by simp

lemma sextets:
  fixes a b c :: byte
  shows "unat a div 4 < 64" "unat a mod 4 * 16 < 64" "unat a mod 4 * 16 + unat b div 16 < 64"
    "unat b mod 16 * 4 < 64" "unat b mod 16 * 4 + unat c div 64 < 64" "unat c mod 64 < 64"
  using byte_lt[of a] byte_lt[of b] byte_lt[of c] by simp_all

lemma regroup:
  fixes a b c :: nat
  assumes "b < 256" "c < 256"
  shows "a div 4 * 4 + (a mod 4 * 16 + b div 16) div 16 = a"
    "a div 4 * 4 + (a mod 4 * 16) div 16 = a"
    "(a mod 4 * 16 + b div 16) mod 16 * 16 + (b mod 16 * 4 + c div 64) div 4 = b"
    "(a mod 4 * 16 + b div 16) mod 16 * 16 + (b mod 16 * 4) div 4 = b"
    "(b mod 16 * 4 + c div 64) mod 4 * 64 + c mod 64 = c"
  using assms by simp_all

lemma base64_roundtrip: "fromBase64 (toBase64 bs) = bs"
proof (induction bs rule: toBase64.induct)
  case 1
  then show ?case by simp
next
  case (2 a)
  show ?case
    using byte_lt[of a] by (simp add: dec_enc sextets regroup)
next
  case (3 a b)
  show ?case
    using byte_lt[of a] byte_lt[of b] by (simp add: dec_enc enc_not_pad sextets regroup)
next
  case (4 a b c rest)
  then show ?case
    using byte_lt[of a] byte_lt[of b] byte_lt[of c]
    by (simp add: dec_enc enc_not_pad sextets regroup)
qed

subsection \<open>The frame of each stage\<close>

lemma emitsD: "emits P m \<Longrightarrow> \<exists>es. trace (snd (m w)) = trace w @ es \<and> list_all P es"
  by (simp add: emits_def)

lemma emits_mono: "emits P m \<Longrightarrow> (\<And>e. P e \<Longrightarrow> Q e) \<Longrightarrow> emits Q m"
  unfolding emits_def by (metis list.pred_mono_strong)

lemma emits_return: "emits P (return x)"
  by (simp add: emits_def return_def)

lemma emits_throw: "emits P (throw e)"
  by (simp add: emits_def throw_def)

lemma emits_lift: "emits P (lift r)"
  by (simp add: emits_def lift_def)

lemma emits_modify: "emits P (modify a f)"
  by (simp add: emits_def modify_def)

lemma emits_logged: "P e \<Longrightarrow> emits P (logged e)"
  by (simp add: emits_def logged_def)

lemma emits_perform: "P e \<Longrightarrow> emits P (perform E e r)"
  by (simp add: emits_def perform_def split: option.split)

lemma emits_call: "P e \<Longrightarrow> emits P (call E e)"
  by (simp add: call_def emits_perform)

lemma emits_bind:
  assumes "emits P m" and "\<And>x. emits P (f x)"
  shows "emits P (bind m f)"
  unfolding emits_def
proof
  fix w
  obtain r w1 where m: "m w = (r, w1)" by (cases "m w")
  from emitsD[OF assms(1), of w] m obtain es where es: "trace w1 = trace w @ es" "list_all P es"
    by auto
  show "\<exists>es. trace (snd (bind m f w)) = trace w @ es \<and> list_all P es"
  proof (cases r)
    case (Inl e)
    with m es show ?thesis by (auto simp: bind_def)
  next
    case (Inr x)
    from emitsD[OF assms(2), of x w1] obtain es' where
      "trace (snd (f x w1)) = trace w1 @ es'" "list_all P es'" by auto
    with m es Inr show ?thesis by (auto simp: bind_def)
  qed
qed

lemma emits_try_catch:
  assumes "emits P m" and "\<And>e. emits P (h e)"
  shows "emits P (try_catch m h)"
  unfolding emits_def
proof
  fix w
  obtain r w1 where m: "m w = (r, w1)" by (cases "m w")
  from emitsD[OF assms(1), of w] m obtain es where es: "trace w1 = trace w @ es" "list_all P es"
    by auto
  show "\<exists>es. trace (snd (try_catch m h w)) = trace w @ es \<and> list_all P es"
  proof (cases r)
    case (Inr x)
    with m es show ?thesis by (auto simp: try_catch_def)
  next
    case (Inl e)
    from emitsD[OF assms(2), of e w1] obtain es' where
      "trace (snd (h e w1)) = trace w1 @ es'" "list_all P es'" by auto
    with m es Inl show ?thesis by (auto simp: try_catch_def)
  qed
qed

lemma emits_reading: "(\<And>w. emits P (f w)) \<Longrightarrow> emits P (reading f)"
  by (simp add: emits_def reading_def)

lemma emits_steps: "(\<And>m. m \<in> set ms \<Longrightarrow> emits P m) \<Longrightarrow> emits P (steps ms)"
  by (induction ms) (auto intro: emits_return emits_bind)

lemmas emits_intros = emits_return emits_throw emits_lift emits_modify emits_logged
  emits_perform emits_call emits_bind emits_try_catch emits_reading emits_steps

lemma keeps_heapD: "keeps_heap m \<Longrightarrow> heap (snd (m w)) = heap w"
  by (simp add: keeps_heap_def)

lemma keeps_return: "keeps_heap (return x)"
  by (simp add: keeps_heap_def return_def)

lemma keeps_throw: "keeps_heap (throw e)"
  by (simp add: keeps_heap_def throw_def)

lemma keeps_logged: "keeps_heap (logged e)"
  by (simp add: keeps_heap_def logged_def)

lemma keeps_perform: "keeps_heap (perform E e r)"
  by (simp add: keeps_heap_def perform_def split: option.split)

lemma keeps_call: "keeps_heap (call E e)"
  by (simp add: call_def keeps_perform)

lemma keeps_bind:
  assumes "keeps_heap m" and "\<And>x. keeps_heap (f x)"
  shows "keeps_heap (bind m f)"
  unfolding keeps_heap_def
proof
  fix w
  obtain r w1 where m: "m w = (r, w1)" by (cases "m w")
  with keeps_heapD[OF assms(1), of w] have "heap w1 = heap w" by simp
  with m keeps_heapD[OF assms(2), of _ w1] show "heap (snd (bind m f w)) = heap w"
    by (cases r) (auto simp: bind_def)
qed

lemma keeps_try_catch:
  assumes "keeps_heap m" and "\<And>e. keeps_heap (h e)"
  shows "keeps_heap (try_catch m h)"
  unfolding keeps_heap_def
proof
  fix w
  obtain r w1 where m: "m w = (r, w1)" by (cases "m w")
  with keeps_heapD[OF assms(1), of w] have "heap w1 = heap w" by simp
  with m keeps_heapD[OF assms(2), of _ w1] show "heap (snd (try_catch m h w)) = heap w"
    by (cases r) (auto simp: try_catch_def)
qed

lemma keeps_reading: "(\<And>w. keeps_heap (f w)) \<Longrightarrow> keeps_heap (reading f)"
  by (simp add: keeps_heap_def reading_def)

lemma keeps_steps: "(\<And>m. m \<in> set ms \<Longrightarrow> keeps_heap m) \<Longrightarrow> keeps_heap (steps ms)"
  by (induction ms) (auto intro: keeps_return keeps_bind)

lemmas keeps_intros = keeps_return keeps_throw keeps_logged keeps_perform keeps_call
  keeps_bind keeps_try_catch keeps_reading keeps_steps

lemma emits_kibana: "emits is_page (Authenticator_kibana E u p n t)"
  unfolding Authenticator_kibana_def by (auto intro!: emits_intros)

lemma emits_custom: "emits is_page (Authenticator_custom E u p s1 s2 s3 t)"
  unfolding Authenticator_custom_def by (auto intro!: emits_intros)

lemma emits_basic: "emits is_page (Authenticator_basic E u p)"
  unfolding Authenticator_basic_def by (auto intro!: emits_intros)

lemma emits_authenticate: "emits is_page (Reporter_authenticate E md u p t)"
  unfolding Reporter_authenticate_def
  by (auto intro!: emits_intros emits_kibana emits_custom)

lemma emits_openPage: "emits is_page (Reporter_openPage E this u x)"
  unfolding Reporter_openPage_def Let_def
  by (auto intro!: emits_intros emits_authenticate emits_basic split: option.split)

lemma emits_screenshot: "emits is_page (Reporter_screenshot E this ty)"
  unfolding Reporter_screenshot_def Let_def by (auto intro!: emits_intros)

lemma emits_pdf: "emits is_page (Reporter_pdf E this)"
  unfolding Reporter_pdf_def Let_def by (auto intro!: emits_intros)

lemma emits_capture_stage: "emits is_page (capture_stage E a act)"
  unfolding capture_stage_def
  by (auto intro!: emits_intros emits_openPage emits_screenshot emits_pdf)

lemma emits_overlay: "emits is_log (overlay a act)"
  unfolding overlay_def Let_def by (auto intro!: emits_intros split: option.split)

lemma emits_prepare: "emits is_log (prepare E a act n pl)"
  unfolding prepare_def Let_def
  by (auto intro!: emits_intros emits_overlay split: option.split)

lemma keeps_kibana: "keeps_heap (Authenticator_kibana E u p n t)"
  unfolding Authenticator_kibana_def by (auto intro!: keeps_intros)

lemma keeps_custom: "keeps_heap (Authenticator_custom E u p s1 s2 s3 t)"
  unfolding Authenticator_custom_def by (auto intro!: keeps_intros)

lemma keeps_basic: "keeps_heap (Authenticator_basic E u p)"
  unfolding Authenticator_basic_def by (auto intro!: keeps_intros)

lemma keeps_authenticate: "keeps_heap (Reporter_authenticate E md u p t)"
  unfolding Reporter_authenticate_def
  by (auto intro!: keeps_intros keeps_kibana keeps_custom)

lemma keeps_openPage: "keeps_heap (Reporter_openPage E this u x)"
  unfolding Reporter_openPage_def Let_def
  by (auto intro!: keeps_intros keeps_authenticate keeps_basic split: option.split)

lemma keeps_screenshot: "keeps_heap (Reporter_screenshot E this ty)"
  unfolding Reporter_screenshot_def Let_def by (auto intro!: keeps_intros)

lemma keeps_pdf: "keeps_heap (Reporter_pdf E this)"
  unfolding Reporter_pdf_def Let_def by (auto intro!: keeps_intros)

lemma keeps_capture_stage: "keeps_heap (capture_stage E a act)"
  unfolding capture_stage_def
  by (auto intro!: keeps_intros keeps_openPage keeps_screenshot keeps_pdf)

lemma keeps_end: "keeps_heap (Reporter_end E this)"
  unfolding Reporter_end_def by (auto intro!: keeps_intros)

lemma keeps_mail_stage: "keeps_heap (mail_stage E tsk act p file)"
  unfolding mail_stage_def Let_def by (auto intro!: keeps_intros)

lemma keeps_history_stage: "keeps_heap (history_stage E tsk act n p att)"
  unfolding history_stage_def by (auto intro!: keeps_intros)

subsection \<open>Evaluating and decomposing a run\<close>

lemmas io_defs = return_def throw_def bind_def try_catch_def reading_def lift_def perform_def
  call_def logged_def modify_def

lemmas run_defs = io_defs config_at_def Let_def
  Authenticator_kibana_def Authenticator_custom_def Authenticator_basic_def
  Reporter_new_def this_authentication_def Reporter_authenticate_def Reporter_openPage_def
  Reporter_screenshot_def Reporter_pdf_def Reporter_end_def overlay_def prepare_def
  formatterSubject_def formatterText_def priority_of_def
  primary_doc_def fallback_doc_def capture_stage_def mail_stage_def history_stage_def
  try_block_def doReport_def new_events_def
  createReportFileName_def createReportAttachment_def

lemmas sample_defs = base_cfg_def sample_action_def sample_params_def sample_task_def
  quiet_env_def world0_def

lemma new_events_append: "trace w' = trace w @ es \<Longrightarrow> new_events w w' = es"
  by (simp add: new_events_def)

lemma handler_run: "handler err w = (Inr None, w\<lparr>trace := trace w @ [LogError err]\<rparr>)"
  by (simp add: bind_def logged_def return_def)

lemma try_catch_bind:
  "try_catch (bind m f) h w =
     (case m w of (Inl e, w') \<Rightarrow> h e w' | (Inr x, w') \<Rightarrow> try_catch (f x) h w')"
  by (simp add: try_catch_def bind_def split: prod.split sum.split)

lemma openPage_result:
  "Reporter_openPage E this u x w = (Inr r, w') \<Longrightarrow> r_browser r \<and> r_page r"
  unfolding Reporter_openPage_def Let_def bind_def return_def
  by (auto split: prod.splits sum.splits)

lemma capture_stage_result:
  "capture_stage E a act w = (Inr (r, f), w') \<Longrightarrow> r_browser r"
  unfolding capture_stage_def bind_def return_def reading_def
  by (auto split: prod.splits sum.splits dest: openPage_result)

lemma end_run:
  "r_browser r \<Longrightarrow>
   Reporter_end E r w =
     (case fails E (trace w) Close of
        None \<Rightarrow> Inr ()
      | Some err \<Rightarrow> Inl (Error (''fail to close headless chrome, '' @ err_text err)),
      w\<lparr>trace := trace w @ [Close]\<rparr>)"
  by (simp add: Reporter_end_def try_catch_def call_def perform_def throw_def split: option.split)

lemma before_capture:
  assumes "run_to_capture E a act n pl w = (Inl e, w2)"
  shows "doReport E a tsk act n pl w = (Inl e, w2) \<or>
         doReport E a tsk act n pl w = (Inr None, w2\<lparr>trace := trace w2 @ [LogError e]\<rparr>)"
  using assms
  unfolding run_to_capture_def doReport_def try_block_def
  by (auto simp: bind_def try_catch_def return_def logged_def split: prod.splits sum.splits)

lemma after_capture:
  assumes "run_to_capture E a act n pl w = (Inr (p, rep, file), w2)"
  shows "r_browser rep"
    and "doReport E a tsk act n pl w =
         try_catch (bind (Reporter_end E rep) (\<lambda>_.
                    bind (mail_stage E tsk act p file) (\<lambda>attachment.
                    history_stage E tsk act n p attachment))) handler w2"
proof -
  from assms obtain w1 where prep: "prepare E a act n pl w = (Inr p, w1)"
    and cap: "capture_stage E a act w1 = (Inr (rep, file), w2)"
    unfolding run_to_capture_def
    by (auto simp: bind_def return_def split: prod.splits sum.splits)
  from cap show "r_browser rep" by (rule capture_stage_result)
  from prep cap show "doReport E a tsk act n pl w =
         try_catch (bind (Reporter_end E rep) (\<lambda>_.
                    bind (mail_stage E tsk act p file) (\<lambda>attachment.
                    history_stage E tsk act n p attachment))) handler w2"
    unfolding doReport_def try_block_def
    by (simp add: bind_def try_catch_def)
qed

lemma before_mail:
  assumes "run_to_mail E a tsk act n pl w = (Inl e, w3)"
  shows "doReport E a tsk act n pl w = (Inl e, w3) \<or>
         doReport E a tsk act n pl w = (Inr None, w3\<lparr>trace := trace w3 @ [LogError e]\<rparr>)"
proof -
  obtain r w2 where rc: "run_to_capture E a act n pl w = (r, w2)"
    by (cases "run_to_capture E a act n pl w")
  show ?thesis
  proof (cases r)
    case (Inl e')
    with rc assms have "e' = e" "w2 = w3"
      unfolding run_to_mail_def by (auto simp: bind_def)
    with rc Inl before_capture[of E a act n pl w e w3 tsk] show ?thesis by simp
  next
    case (Inr x)
    obtain p rep img where x: "x = (p, rep, img)" by (cases x)
    note ac = after_capture(2)[OF rc[unfolded Inr x], of tsk]
    from assms rc Inr x
    have "bind (Reporter_end E rep) (\<lambda>_.
            bind (mail_stage E tsk act p img) (\<lambda>attachment. return (p, attachment))) w2
          = (Inl e, w3)"
      unfolding run_to_mail_def by (simp add: bind_def)
    then have "bind (Reporter_end E rep) (\<lambda>_.
                    bind (mail_stage E tsk act p img) (\<lambda>attachment.
                    history_stage E tsk act n p attachment)) w2 = (Inl e, w3)"
      by (auto simp: bind_def return_def split: prod.splits sum.splits)
    with ac show ?thesis
      by (simp add: try_catch_def handler_run)
  qed
qed

lemma after_mail:
  assumes "run_to_mail E a tsk act n pl w = (Inr (p, attachment), w3)"
  shows "doReport E a tsk act n pl w =
         try_catch (history_stage E tsk act n p attachment) handler w3"
proof -
  from assms obtain rep img w2 where rc: "run_to_capture E a act n pl w = (Inr (p, rep, img), w2)"
    and rest: "bind (Reporter_end E rep) (\<lambda>_.
            bind (mail_stage E tsk act p img) (\<lambda>attachment. return (p, attachment))) w2
          = (Inr (p, attachment), w3)"
    unfolding run_to_mail_def
    by (auto simp: bind_def return_def split: prod.splits sum.splits)
  from rest have "try_catch (bind (Reporter_end E rep) (\<lambda>_.
                    bind (mail_stage E tsk act p img) (\<lambda>attachment.
                    history_stage E tsk act n p attachment))) handler w2
       = try_catch (history_stage E tsk act n p attachment) handler w3"
    by (auto simp: try_catch_def bind_def return_def split: prod.splits sum.splits)
  with after_capture(2)[OF rc, of tsk] show ?thesis by simp
qed


lemma filter_none: "list_all P es \<Longrightarrow> (\<And>e. P e \<Longrightarrow> \<not> Q e) \<Longrightarrow> filter Q es = []"
  by (induction es) auto

lemma kinds:
  "is_log e \<Longrightarrow> \<not> is_close e" "is_log e \<Longrightarrow> \<not> is_send e" "is_log e \<Longrightarrow> \<not> is_history e"
  "is_page e \<Longrightarrow> \<not> is_close e" "is_page e \<Longrightarrow> \<not> is_send e" "is_page e \<Longrightarrow> \<not> is_history e"
  "is_send e \<Longrightarrow> \<not> is_close e" "is_send e \<Longrightarrow> \<not> is_history e"
  "is_history e \<Longrightarrow> \<not> is_close e" "is_history e \<Longrightarrow> \<not> is_send e"
  "is_close e \<Longrightarrow> \<not> is_send e" "is_close e \<Longrightarrow> \<not> is_history e"
  by (cases e; simp)+

lemma emits_handler: "emits is_log (handler err)"
  by (auto intro!: emits_intros)

lemma emits_end: "emits is_close (Reporter_end E this)"
  unfolding Reporter_end_def by (auto intro!: emits_intros)

lemma emits_mail_stage: "emits (\<lambda>e. is_log e \<or> is_send e) (mail_stage E tsk act p img)"
  unfolding mail_stage_def Let_def by (auto intro!: emits_intros)

lemma emits_history_stage:
  "emits (\<lambda>e. is_log e \<or> is_history e) (history_stage E tsk act n p att)"
  unfolding history_stage_def by (auto intro!: emits_intros)

lemma emits_after_close:
  "emits (\<lambda>e. \<not> is_close e)
     (try_catch (bind (mail_stage E tsk act p img) (\<lambda>attachment.
                 history_stage E tsk act n p attachment)) handler)"
  by (intro emits_try_catch emits_bind
        emits_mono[OF emits_mail_stage] emits_mono[OF emits_history_stage]
        emits_mono[OF emits_handler]) (auto dest: kinds)

lemma emits_run_to_capture:
  "emits (\<lambda>e. is_log e \<or> is_page e) (run_to_capture E a act n pl)"
  unfolding run_to_capture_def
  by (auto intro!: emits_bind emits_return emits_mono[OF emits_prepare]
        emits_mono[OF emits_capture_stage])

lemma emits_run_to_mail:
  "emits (\<lambda>e. \<not> is_history e) (run_to_mail E a tsk act n pl)"
  unfolding run_to_mail_def
  by (auto intro!: emits_bind emits_return emits_mono[OF emits_run_to_capture]
        emits_mono[OF emits_end] emits_mono[OF emits_mail_stage] dest: kinds)

lemma history_run:
  "try_catch (history_stage E tsk act n p att) handler w3 =
     (if stateless act
      then (Inr (Some (Message ''stateless report does not save data to Elasticsearch'')),
            w3\<lparr>trace := trace w3 @
              [LogDebug ''stateless report does not save data to Elasticsearch'']\<rparr>)
      else case fails E (trace w3) (LogHistory (primary_doc tsk n p att)) of
             None \<Rightarrow> (Inr (Some (Saved (history_result E (trace w3)))),
                       w3\<lparr>trace := trace w3 @ [LogHistory (primary_doc tsk n p att)]\<rparr>)
           | Some err \<Rightarrow>
               (case fails E (trace w3 @ [LogHistory (primary_doc tsk n p att)])
                       (LogHistory (fallback_doc E tsk n err)) of
                  None \<Rightarrow>
                    (Inr (Some (Saved (history_result E
                        (trace w3 @ [LogHistory (primary_doc tsk n p att)])))),
                     w3\<lparr>trace := trace w3 @ [LogHistory (primary_doc tsk n p att),
                                               LogHistory (fallback_doc E tsk n err)]\<rparr>)
                | Some err2 \<Rightarrow>
                    (Inr None,
                     w3\<lparr>trace := trace w3 @ [LogHistory (primary_doc tsk n p att),
                                               LogHistory (fallback_doc E tsk n err),
                                               LogError err2]\<rparr>)))"
  by (simp add: history_stage_def io_defs split: option.split)

lemma history_events:
  "filter is_history (new_events w (snd (doReport E a tsk act n pl w))) =
     (case run_to_mail E a tsk act n pl w of
        (Inl e, w3) \<Rightarrow> []
      | (Inr (p, attachment), w3) \<Rightarrow>
          (if stateless act then []
           else case fails E (trace w3) (LogHistory (primary_doc tsk n p attachment)) of
                  None \<Rightarrow> [LogHistory (primary_doc tsk n p attachment)]
                | Some err \<Rightarrow> [LogHistory (primary_doc tsk n p attachment),
                              LogHistory (fallback_doc E tsk n err)]))"
proof -
  obtain r w3 where rm: "run_to_mail E a tsk act n pl w = (r, w3)"
    by (cases "run_to_mail E a tsk act n pl w")
  from emitsD[OF emits_run_to_mail, of E a tsk act n pl w] rm
  obtain es where es: "trace w3 = trace w @ es" "list_all (\<lambda>e. \<not> is_history e) es"
    by auto
  from es(2) have quiet: "filter is_history es = []"
    by (rule filter_none) simp
  show ?thesis
  proof (cases r)
    case (Inl e)
    from before_mail[OF rm[unfolded Inl]] es quiet rm Inl
    show ?thesis by (auto simp: new_events_def)
  next
    case (Inr x)
    obtain p att where x: "x = (p, att)" by (cases x)
    from after_mail[OF rm[unfolded Inr x]] es quiet rm Inr x
    show ?thesis
      by (simp add: history_run new_events_def split: option.split)
  qed
qed

lemma overlay_isl:
  "isl (fst (overlay a act w)) \<longleftrightarrow>
     params (snapshot act) = None \<or> res (snapshot act) = None"
  unfolding overlay_def Let_def
  by (cases "params (snapshot act)"; cases "res (snapshot act)")
     (simp_all add: return_def throw_def bind_def reading_def modify_def config_at_def
        del: or_str.simps or_num.simps)

lemma overlay_no_params:
  "params (snapshot act) = None \<Longrightarrow>
   overlay a act w = (Inl (TypeError ''Cannot read property 'username' of undefined''), w)"
  by (simp add: overlay_def throw_def)

lemma overlay_fields:
  assumes "res (snapshot act) = Some r" and "params (snapshot act) = Some ps"
  shows "username (authentication (config_at (snd (overlay a act w)) a)) = params_username ps"
    and "password (authentication (config_at (snd (overlay a act w)) a)) = params_password ps"
    and "width (file_screenshot (cfg_file (config_at (snd (overlay a act w)) a))) =
           at_index (split_on CHR ''x'' r) 0"
    and "height (file_screenshot (cfg_file (config_at (snd (overlay a act w)) a))) =
           at_index (split_on CHR ''x'' r) 1"
    and "timeout (config_at (snd (overlay a act w)) a) =
           or_num (delay ps) (timeout (config_at w a))"
    and "auth_custom (authentication (config_at (snd (overlay a act w)) a)) =
           (if custom (mode (authentication (config_at w a)))
            then \<lparr>username_input_selector =
                   or_str (params_username_input_selector ps)
                     (username_input_selector (auth_custom (authentication (config_at w a)))),
                  password_input_selector =
                   or_str (params_password_input_selector ps)
                     (password_input_selector (auth_custom (authentication (config_at w a)))),
                  login_btn_selector =
                   or_str (params_login_btn_selector ps)
                     (login_btn_selector (auth_custom (authentication (config_at w a))))\<rparr>
            else auth_custom (authentication (config_at w a)))"
    and "b \<noteq> a \<Longrightarrow> heap (snd (overlay a act w)) b = heap w b"
  using assms
  unfolding overlay_def Let_def
  by (simp_all add: return_def throw_def bind_def reading_def modify_def config_at_def
        del: or_str.simps or_num.simps)


lemma prepare_overlay:
  assumes "prepare E a act n pl w = (Inr p, w1)"
  shows "\<exists>es. overlay a act (w\<lparr>trace := trace w @ es\<rparr>) = (Inr (), w1)"
  using assms unfolding prepare_def Let_def
  by (auto simp: return_def throw_def bind_def reading_def lift_def logged_def
           split: prod.splits sum.splits if_splits option.splits)



lemma keeps_try_block: "keeps_heap (try_block E a tsk act n p)"
  unfolding try_block_def
  by (auto intro!: keeps_intros keeps_capture_stage keeps_end keeps_mail_stage keeps_history_stage)

lemma keeps_handler: "keeps_heap (handler err)"
  by (auto intro!: keeps_intros)

lemma doReport_heap:
  "prepare E a act n pl w = (Inr p, w1) \<Longrightarrow> heap (snd (doReport E a tsk act n pl w)) = heap w1"
proof -
  assume prep: "prepare E a act n pl w = (Inr p, w1)"
  have "keeps_heap (try_catch (try_block E a tsk act n p) handler)"
    by (intro keeps_try_catch keeps_try_block keeps_handler)
  from keeps_heapD[OF this, of w1] prep show ?thesis
    by (simp add: doReport_def bind_def)
qed

subsection \<open>Closing the browser\<close>

text \<open>
  C1, as the code has it. The close of the session is attempted at most once in a run:
  exactly once when the statements before the \<^verbatim>\<open>try\<close> block, the opening of the page and
  the capture have all succeeded, and not at all when one of them fails. There is no
  release on the failing paths.
\<close>

theorem close_attempts:
  "length (filter is_close (new_events w (snd (doReport E a tsk act n pl w)))) =
     (case fst (run_to_capture E a act n pl w) of Inl e \<Rightarrow> 0 | Inr x \<Rightarrow> 1)"
proof -
  obtain r w2 where rc: "run_to_capture E a act n pl w = (r, w2)"
    by (cases "run_to_capture E a act n pl w")
  from emitsD[OF emits_run_to_capture, of E a act n pl w] rc
  obtain es where es: "trace w2 = trace w @ es" "list_all (\<lambda>e. is_log e \<or> is_page e) es"
    by auto
  from es(2) have quiet: "filter is_close es = []"
    by (rule filter_none) (auto dest: kinds)
  show ?thesis
  proof (cases r)
    case (Inl e)
    from before_capture[OF rc[unfolded Inl], of tsk] es quiet rc Inl
    show ?thesis by (auto simp: new_events_def)
  next
    case (Inr x)
    obtain p rep img where x: "x = (p, rep, img)" by (cases x)
    note ac = after_capture[OF rc[unfolded Inr x]]
    let ?w3 = "w2\<lparr>trace := trace w2 @ [Close]\<rparr>"
    let ?rest = "try_catch (bind (mail_stage E tsk act p img) (\<lambda>attachment.
                 history_stage E tsk act n p attachment)) handler"
    from emitsD[OF emits_after_close, of E tsk act p img n ?w3]
    obtain es' where es': "trace (snd (?rest ?w3)) = trace ?w3 @ es'"
      "list_all (\<lambda>e. \<not> is_close e) es'" by auto
    from es'(2) have quiet': "filter is_close es' = []"
      by (rule filter_none) simp
    have "trace (snd (doReport E a tsk act n pl w)) = trace w @ es @ [Close] @ es' \<or>
          (\<exists>err. trace (snd (doReport E a tsk act n pl w)) = trace w @ es @ [Close, LogError err])"
      using ac(2)[of tsk] es es'(1)
      by (cases "fails E (trace w2) Close")
         (simp_all add: try_catch_bind end_run[OF ac(1)] handler_run)
    with quiet quiet' rc Inr show ?thesis
      by (auto simp: new_events_def)
  qed
qed

text \<open>
  Where the claim as stated fails: the browser is launched, \<^verbatim>\<open>newPage\<close> fails, and the
  run ends with the error logged and no close attempted.
\<close>

theorem close_skipped_counterexample:
  "new_events (world0 base_cfg)
     (snd (doReport (failing_on is_newpage) 0 sample_task sample_action ''report1'' ''{}''
        (world0 base_cfg))) =
     [LogDebug ''subject: Daily, body: report'', Launch None, NewPage,
      LogError (Error ''fail to open headless chrome, Error: gone'')] \<and>
   length (filter is_close (new_events (world0 base_cfg)
     (snd (doReport (failing_on is_newpage) 0 sample_task sample_action ''report1'' ''{}''
        (world0 base_cfg))))) = 0"
  by (simp add: run_defs sample_defs failing_on_def)

subsection \<open>What crosses the boundary of doReport\<close>




subsection \<open>Authentication\<close>

text \<open>
  C3. In custom mode the overlay merges the selectors into the configuration (here the
  action overrides the login button only), but the login types into \<^verbatim>\<open>#user\<close> and
  \<^verbatim>\<open>#pass\<close> and clicks \<^verbatim>\<open>.btn-lg\<close>, the literals of \<^verbatim>\<open>Reporter.authenticate\<close>, whatever
  the merged selectors are.
\<close>

theorem custom_selectors_ignored:
  "filter is_form (new_events (world0 custom_cfg0)
     (snd (doReport quiet_env 0 sample_task button_action ''report1'' ''{}'' (world0 custom_cfg0)))) =
     [TypeText ''#user'' (Some ''admin'') 100, TypeText ''#pass'' (Some ''secret'') 100,
      Click ''.btn-lg''] \<and>
   auth_custom (authentication (config_at
     (snd (doReport quiet_env 0 sample_task button_action ''report1'' ''{}'' (world0 custom_cfg0))) 0)) =
     \<lparr>username_input_selector = Some ''#login-user'',
      password_input_selector = Some ''#login-pass'',
      login_btn_selector = Some ''#submit''\<rparr>"
  by (simp add: run_defs sample_defs custom_cfg0_def with_mode_def button_action_def with_params_def)

text \<open>
  C4. With authentication enabled in basic mode, \<^verbatim>\<open>openPage\<close> reads
  \<^verbatim>\<open>this.authentication.username\<close>, a property the reporter does not have: it throws a
  TypeError after the browser is launched, no header is set and the page is never
  navigated; \<^verbatim>\<open>doReport\<close> logs the error.
\<close>

theorem basic_header_never_set:
  "Reporter_openPage quiet_env (Reporter_new 0) (Some ''http://x'') None (world0 basic_cfg0) =
     (Inl (TypeError ''Cannot read property 'username' of undefined''),
      (world0 basic_cfg0)\<lparr>trace := [Launch None, NewPage]\<rparr>) \<and>
   new_events (world0 basic_cfg0)
     (snd (doReport quiet_env 0 sample_task sample_action ''report1'' ''{}'' (world0 basic_cfg0))) =
     [LogDebug ''subject: Daily, body: report'', Launch None, NewPage,
      LogError (TypeError ''Cannot read property 'username' of undefined'')]"
  by (simp add: run_defs sample_defs basic_cfg0_def with_mode_def)

subsection \<open>History writes\<close>

text \<open>
  C5, as the code has it. A run that fails before the history step (before the
  \<^verbatim>\<open>try\<close> block, in the session or in the mail) attempts no history write. A run that
  reaches it with an action that is not stateless attempts the primary record once; exactly
  when that write fails it attempts the fallback record once more, and never a third. The
  fallback record carries the title of the task, the action's name and the serialized
  error.
\<close>

theorem history_writes:
  "filter is_history (new_events w (snd (doReport E a tsk act n pl w))) =
     (case run_to_mail E a tsk act n pl w of
        (Inl e, w3) \<Rightarrow> []
      | (Inr (p, attachment), w3) \<Rightarrow>
          (if stateless act then []
           else case fails E (trace w3) (LogHistory (primary_doc tsk n p attachment)) of
                  None \<Rightarrow> [LogHistory (primary_doc tsk n p attachment)]
                | Some err \<Rightarrow> [LogHistory (primary_doc tsk n p attachment),
                              LogHistory (fallback_doc E tsk n err)])) \<and>
   doc_title (fallback_doc E tsk n err') = source_title tsk \<and>
   doc_actionType (fallback_doc E tsk n err') = n \<and>
   doc_message (fallback_doc E tsk n err') =
     (if isObject err' then json_stringify E err' else err_text err')"
  using history_events[of w E a tsk act n pl] by (simp add: fallback_doc_def)

text \<open>
  Where the claim as stated fails: the action is not stateless, the mail fails, and no
  history write is attempted.
\<close>

theorem no_history_counterexample:
  "\<not> stateless sample_action \<and>
   filter is_history (new_events (world0 base_cfg)
     (snd (doReport (failing_on is_send) 0 sample_task sample_action ''report1'' ''{}''
        (world0 base_cfg)))) = []"
  by (simp add: run_defs sample_defs failing_on_def)

text \<open>
  C7, as the code has it. A stateless action never writes history; when the run reaches
  the history step, the result is the message
  \<^verbatim>\<open>stateless report does not save data to Elasticsearch\<close>.
\<close>

theorem stateless_run:
  "stateless act \<Longrightarrow>
   filter is_history (new_events w (snd (doReport E a tsk act n pl w))) = [] \<and>
   (run_to_mail E a tsk act n pl w = (Inr (p, attachment), w3) \<longrightarrow>
      fst (doReport E a tsk act n pl w) =
        Inr (Some (Message ''stateless report does not save data to Elasticsearch'')))"
  using history_events[of w E a tsk act n pl] after_mail[of E a tsk act n pl w p attachment w3]
  by (auto simp: history_run split: prod.splits sum.splits)

theorem stateless_run_witness:
  "stateless (sample_action\<lparr>stateless := True\<rparr>) \<and>
   fst (run_to_mail quiet_env 0 sample_task (sample_action\<lparr>stateless := True\<rparr>)
          ''report1'' ''{}'' (world0 base_cfg)) =
     Inr (sample_prepared,
          createReportAttachment ''nightly.png'' [0x89, 0x50, 0x4E, 0x47] (Some ''png'')) \<and>
   filter is_history (new_events (world0 base_cfg)
     (snd (doReport quiet_env 0 sample_task (sample_action\<lparr>stateless := True\<rparr>)
        ''report1'' ''{}'' (world0 base_cfg)))) = [] \<and>
   fst (doReport quiet_env 0 sample_task (sample_action\<lparr>stateless := True\<rparr>)
        ''report1'' ''{}'' (world0 base_cfg)) =
     Inr (Some (Message ''stateless report does not save data to Elasticsearch''))"
proof -
  let ?act = "sample_action\<lparr>stateless := True\<rparr>"
  let ?att = "createReportAttachment ''nightly.png'' [0x89, 0x50, 0x4E, 0x47] (Some ''png'')"
  let ?w3 = "snd (run_to_mail quiet_env 0 sample_task ?act ''report1'' ''{}'' (world0 base_cfg))"
  have s: "stateless ?act" by simp
  have m: "fst (run_to_mail quiet_env 0 sample_task ?act ''report1'' ''{}'' (world0 base_cfg)) =
     Inr (sample_prepared, ?att)"
    by (simp add: run_defs sample_defs run_to_mail_def run_to_capture_def sample_prepared_def)
  then have m': "run_to_mail quiet_env 0 sample_task ?act ''report1'' ''{}'' (world0 base_cfg) =
     (Inr (sample_prepared, ?att), ?w3)"
    by (simp add: prod_eq_iff)
  from stateless_run[OF s, of "world0 base_cfg" quiet_env 0 sample_task "''report1''" "''{}''"
      sample_prepared ?att ?w3] m' m s
  show ?thesis by simp
qed

text \<open>
  Where the claim as stated fails: the message is not the shorter literal.
\<close>

theorem stateless_message_counterexample:
  "fst (doReport quiet_env 0 sample_task (sample_action\<lparr>stateless := True\<rparr>) ''report1'' ''{}''
        (world0 base_cfg)) \<noteq> Inr (Some (Message ''stateless report does not save data''))"
  by (simp add: run_defs sample_defs)

subsection \<open>A failing close\<close>

text \<open>
  C6, as the code has it. When the close fails after a successful capture, the run is
  abandoned: the wrapped error is logged, no mail is sent, no history is written, and the
  call resolves with undefined.
\<close>

theorem teardown_failure_aborts:
  assumes "run_to_capture E a act n pl w = (Inr (p, rep, img), w2)"
    and "fails E (trace w2) Close = Some err"
  shows "doReport E a tsk act n pl w =
           (Inr None, w2\<lparr>trace := trace w2 @
              [Close, LogError (Error (''fail to close headless chrome, '' @ err_text err))]\<rparr>) \<and>
         filter is_send (new_events w (snd (doReport E a tsk act n pl w))) = [] \<and>
         filter is_history (new_events w (snd (doReport E a tsk act n pl w))) = []"
proof -
  note ac = after_capture[OF assms(1)]
  from ac(2)[of tsk] assms(2)
  have run: "doReport E a tsk act n pl w =
           (Inr None, w2\<lparr>trace := trace w2 @
              [Close, LogError (Error (''fail to close headless chrome, '' @ err_text err))]\<rparr>)"
    by (simp add: try_catch_bind end_run[OF ac(1)] handler_run)
  from emitsD[OF emits_run_to_capture, of E a act n pl w] assms(1)
  obtain es where es: "trace w2 = trace w @ es" "list_all (\<lambda>e. is_log e \<or> is_page e) es"
    by auto
  from es(2) have "filter is_send es = []" "filter is_history es = []"
    by (rule filter_none; auto dest: kinds)+
  with run es(1) show ?thesis by (simp add: new_events_def)
qed

theorem teardown_failure_aborts_witness:
  "fst (run_to_capture (failing_on is_close) 0 sample_action ''report1'' ''{}'' (world0 base_cfg)) =
     Inr (sample_prepared, sample_reporter, [0x89, 0x50, 0x4E, 0x47]) \<and>
   fails (failing_on is_close)
     (trace (snd (run_to_capture (failing_on is_close) 0 sample_action ''report1'' ''{}''
        (world0 base_cfg)))) Close = Some (Error ''gone'') \<and>
   fst (doReport (failing_on is_close) 0 sample_task sample_action ''report1'' ''{}''
          (world0 base_cfg)) = Inr None \<and>
   filter is_send (new_events (world0 base_cfg)
     (snd (doReport (failing_on is_close) 0 sample_task sample_action ''report1'' ''{}''
        (world0 base_cfg)))) = []"
proof -
  let ?E = "failing_on is_close"
  let ?w2 = "snd (run_to_capture ?E 0 sample_action ''report1'' ''{}'' (world0 base_cfg))"
  have c: "fst (run_to_capture ?E 0 sample_action ''report1'' ''{}'' (world0 base_cfg)) =
     Inr (sample_prepared, sample_reporter, [0x89, 0x50, 0x4E, 0x47])"
    by (simp add: run_defs sample_defs failing_on_def run_to_capture_def sample_prepared_def sample_reporter_def)
  then have c': "run_to_capture ?E 0 sample_action ''report1'' ''{}'' (world0 base_cfg) =
     (Inr (sample_prepared, sample_reporter, [0x89, 0x50, 0x4E, 0x47]), ?w2)"
    by (simp add: prod_eq_iff)
  have f: "fails ?E (trace ?w2) Close = Some (Error ''gone'')"
    by (simp add: failing_on_def)
  note t = teardown_failure_aborts[OF c' f, of sample_task]
  from t have d: "fst (doReport ?E 0 sample_task sample_action ''report1'' ''{}''
          (world0 base_cfg)) = Inr None"
    by simp
  from t have s: "filter is_send (new_events (world0 base_cfg)
     (snd (doReport ?E 0 sample_task sample_action ''report1'' ''{}'' (world0 base_cfg)))) = []"
    by blast
  from c f d s show ?thesis by blast
qed

text \<open>
  Where the claim as stated fails: the capture succeeded, the close failed, and no mail
  was sent.
\<close>

theorem teardown_counterexample:
  "fst (run_to_capture (failing_on is_close) 0 sample_action ''report1'' ''{}'' (world0 base_cfg))
     = Inr (sample_prepared, sample_reporter, [0x89, 0x50, 0x4E, 0x47]) \<and>
   filter is_send (new_events (world0 base_cfg)
     (snd (doReport (failing_on is_close) 0 sample_task sample_action ''report1'' ''{}''
        (world0 base_cfg)))) = []"
  by (simp add: run_defs sample_defs failing_on_def run_to_capture_def sample_prepared_def sample_reporter_def)

subsection \<open>The attachment\<close>

text \<open>
  C8, as the code has it. The attachment has two parts. The first is the HTML
  alternative: for a pdf the sentence \<^verbatim>\<open>Find PDF report in the attachment.\<close>, which does
  not refer to \<^verbatim>\<open>cid:my-report\<close>, and otherwise an image tag that does. The second is the
  base64 text of the file, named with the file name, tagged \<^verbatim>\<open>Content-ID: <my-report>\<close>,
  of type \<^verbatim>\<open>application/pdf\<close> for a pdf and \<^verbatim>\<open>image/<type>\<close> otherwise; decoding
  it gives back the bytes.
\<close>

theorem createReportAttachment_parts:
  "createReportAttachment filename file ty =
     [\<lparr>part_data =
         (if default_png ty = ''pdf''
          then ''<html><p>Find PDF report in the attachment.</p></html>''
          else ''<html><img src='cid:my-report' width='100%'></html>''),
       part_alternative = Some True, part_type = None, part_name = None,
       part_encoded = None, part_headers = []\<rparr>,
      \<lparr>part_data = toBase64 file, part_alternative = None,
       part_type =
         Some (if default_png ty = ''pdf'' then ''application/pdf''
               else ''image/'' @ default_png ty),
       part_name = Some filename, part_encoded = Some True,
       part_headers = [(''Content-ID'', ''<my-report>'')]\<rparr>] \<and>
   fromBase64 (part_data (createReportAttachment filename file ty ! 1)) = file \<and>
   mentions ''cid:my-report'' image_html \<and>
   \<not> mentions ''cid:my-report'' pdf_html"
  by (simp add: createReportAttachment_def base64_roundtrip image_html_def pdf_html_def)

text \<open>
  Where the claim as stated fails: the alternative of a pdf neither refers to
  \<^verbatim>\<open>cid:my-report\<close> nor says "Find the document in the attachment".
\<close>

theorem pdf_inline_counterexample:
  "\<not> mentions ''cid:my-report''
       (part_data (hd (createReportAttachment ''nightly.pdf'' [0x25, 0x50, 0x44, 0x46] (Some ''pdf'')))) \<and>
   \<not> mentions ''Find the document in the attachment''
       (part_data (hd (createReportAttachment ''nightly.pdf'' [0x25, 0x50, 0x44, 0x46] (Some ''pdf''))))"
  by (simp add: createReportAttachment_def pdf_html_def)

subsection \<open>The overlay is written into the shared configuration\<close>

text \<open>
  C10, as the code has it. When the statements before the \<^verbatim>\<open>try\<close> block complete, the
  configuration object behind the reference holds, after the run and whatever the rest of
  the run did: the action's username and password, the width and height split from
  \<^verbatim>\<open>res\<close>, the action's delay when it is truthy and the old timeout otherwise, and in
  custom mode each selector of the action when it is truthy and the old selector otherwise.
  Every other reference still leads to what it led to.
\<close>

theorem overlay_in_place:
  assumes "prepare E a act n pl w = (Inr p, w1)"
  shows "\<exists>r ps. res (snapshot act) = Some r \<and> params (snapshot act) = Some ps \<and>
    (let c = config_at w a; c' = config_at (snd (doReport E a tsk act n pl w)) a
     in username (authentication c') = params_username ps \<and>
        password (authentication c') = params_password ps \<and>
        width (file_screenshot (cfg_file c')) = at_index (split_on CHR ''x'' r) 0 \<and>
        height (file_screenshot (cfg_file c')) = at_index (split_on CHR ''x'' r) 1 \<and>
        timeout c' = or_num (delay ps) (timeout c) \<and>
        auth_custom (authentication c') =
          (if custom (mode (authentication c))
           then \<lparr>username_input_selector =
                  or_str (params_username_input_selector ps)
                    (username_input_selector (auth_custom (authentication c))),
                 password_input_selector =
                  or_str (params_password_input_selector ps)
                    (password_input_selector (auth_custom (authentication c))),
                 login_btn_selector =
                  or_str (params_login_btn_selector ps)
                    (login_btn_selector (auth_custom (authentication c)))\<rparr>
           else auth_custom (authentication c)) \<and>
        (\<forall>b. b \<noteq> a \<longrightarrow> heap (snd (doReport E a tsk act n pl w)) b = heap w b))"
proof -
  from prepare_overlay[OF assms] obtain es where
    "overlay a act (w\<lparr>trace := trace w @ es\<rparr>) = (Inr (), w1)" by auto
  then obtain w' where w': "heap w' = heap w" "overlay a act w' = (Inr (), w1)"
    by (metis (no_types, lifting) world.select_convs(1) world.surjective world.update_convs(2))
  from w'(2) overlay_isl[of a act w'] obtain r ps where r: "res (snapshot act) = Some r"
    and ps: "params (snapshot act) = Some ps"
    by (cases "res (snapshot act)"; cases "params (snapshot act)") auto
  have c: "config_at w' a = config_at w a"
    using w'(1) by (simp add: config_at_def)
  have c': "config_at (snd (doReport E a tsk act n pl w)) a = config_at (snd (overlay a act w')) a"
    using doReport_heap[OF assms, of tsk] w'(2) by (simp add: config_at_def)
  have frame: "\<forall>b. b \<noteq> a \<longrightarrow> heap (snd (doReport E a tsk act n pl w)) b = heap w b"
    using doReport_heap[OF assms, of tsk] w' overlay_fields(7)[OF r ps, of _ a w'] by simp
  show ?thesis
    unfolding Let_def c'
    using overlay_fields(1-6)[OF r ps, of a w'] r ps frame
    by (simp add: c del: or_str.simps or_num.simps)
qed

theorem overlay_in_place_witness:
  "fst (prepare quiet_env 0 sample_action ''report1'' ''{}'' (world0 base_cfg)) =
     Inr sample_prepared \<and>
   username (authentication (config_at (snd (doReport quiet_env 0 sample_task sample_action
     ''report1'' ''{}'' (world0 base_cfg))) 0)) = Some ''admin'' \<and>
   width (file_screenshot (cfg_file (config_at (snd (doReport quiet_env 0 sample_task sample_action
     ''report1'' ''{}'' (world0 base_cfg))) 0))) = Some ''800'' \<and>
   height (file_screenshot (cfg_file (config_at (snd (doReport quiet_env 0 sample_task sample_action
     ''report1'' ''{}'' (world0 base_cfg))) 0))) = Some ''600'' \<and>
   timeout (config_at (snd (doReport quiet_env 0 sample_task sample_action
     ''report1'' ''{}'' (world0 base_cfg))) 0) = 5000 \<and>
   (1::nat) \<noteq> 0 \<and>
   heap (snd (doReport quiet_env 0 sample_task sample_action
     ''report1'' ''{}'' (world0 base_cfg))) 1 = base_cfg"
proof -
  let ?w1 = "snd (prepare quiet_env 0 sample_action ''report1'' ''{}'' (world0 base_cfg))"
  have p: "fst (prepare quiet_env 0 sample_action ''report1'' ''{}'' (world0 base_cfg)) =
     Inr sample_prepared"
    by (simp add: run_defs sample_defs sample_prepared_def)
  then have p': "prepare quiet_env 0 sample_action ''report1'' ''{}'' (world0 base_cfg) =
     (Inr sample_prepared, ?w1)"
    by (simp add: prod_eq_iff)
  have r: "res (snapshot sample_action) = Some ''800x600''"
    "params (snapshot sample_action) =
       Some \<lparr>params_username = Some ''admin'', params_password = Some ''secret'',
            delay = None, params_username_input_selector = None,
            params_password_input_selector = None,
            params_login_btn_selector = None\<rparr>"
    "timeout (config_at (world0 base_cfg) 0) = 5000"
    "heap (world0 base_cfg) 1 = base_cfg"
    by (simp_all add: sample_action_def sample_params_def config_at_def world0_def base_cfg_def)
  from overlay_in_place[OF p', of sample_task] p r show ?thesis
    by (simp add: Let_def)
qed

text \<open>
  Where the claim as stated fails: the action's delay is 0 and the timeout stays 5000.
\<close>

theorem overlay_fallback_counterexample:
  "params (snapshot zero_delay_action) = Some (sample_params\<lparr>delay := Some 0\<rparr>) \<and>
   delay (sample_params\<lparr>delay := Some 0\<rparr>) = Some 0 \<and>
   timeout (config_at (snd (doReport quiet_env 0 sample_task zero_delay_action ''report1'' ''{}''
        (world0 base_cfg))) 0) = 5000"
  by (simp add: run_defs sample_defs zero_delay_action_def with_params_def)

subsection \<open>File names\<close>

text \<open>
  C9. A non-empty requested name gives exactly the name, a dot and the snapshot type; a
  missing or empty name gives \<^verbatim>\<open>report-<uuid>-<timestamp>.<type>\<close>, where the uuid and
  the timestamp are what \<^verbatim>\<open>uuid()\<close> and \<^verbatim>\<open>moment().format('DD-MM-YYYY-h-m-s')\<close> returned.
\<close>

theorem createReportFileName_shape:
  "(name \<noteq> [] \<longrightarrow>
      createReportFileName u t (Some name) (Some ty) = name @ ''.'' @ ty) \<and>
   createReportFileName u t None (Some ty) = ''report-'' @ u @ ''-'' @ t @ ''.'' @ ty \<and>
   createReportFileName u t (Some []) (Some ty) = ''report-'' @ u @ ''-'' @ t @ ''.'' @ ty"
  by (simp add: createReportFileName_def)

theorem createReportFileName_shape_witness:
  "''nightly'' \<noteq> [] \<and>
   createReportFileName ''110ec58a-a0f2-4ac4-8393-c866d813b8d1'' ''03-11-2026-10-17-5''
     (Some ''nightly'') (Some ''pdf'') = ''nightly.pdf'' \<and>
   createReportFileName ''110ec58a-a0f2-4ac4-8393-c866d813b8d1'' ''03-11-2026-10-17-5''
     None (Some ''png'') = ''report-110ec58a-a0f2-4ac4-8393-c866d813b8d1-03-11-2026-10-17-5.png''"
  using createReportFileName_shape [of "''nightly''"
      "''110ec58a-a0f2-4ac4-8393-c866d813b8d1''" "''03-11-2026-10-17-5''" "''pdf''"]
    createReportFileName_shape [of "''nightly''"
      "''110ec58a-a0f2-4ac4-8393-c866d813b8d1''" "''03-11-2026-10-17-5''" "''png''"]
  by simp

end
